theory Spec2Isabelle
  imports Complex_Main "HOL-Library.Log_Nat"
begin

section \<open>Strings\<close>

text \<open>
  A Python \<open>str\<close> is a sequence of Unicode code points, and a one-character string
  compares by its code point. A character is therefore modelled by its code point
  (\<open>ord(c)\<close>) and a string by the list of its code points.
\<close>

type_synonym pychar = int
type_synonym pystr = "pychar list"

section \<open>The character-set preparer\<close>

text \<open>
  The literal of line 95, \<^verbatim>\<open>' !"#$%&\'()*+,-./:;<=>?@[\\]^_`{|}~'\<close>, character by
  character (the two backslash escapes stand for one character each).
\<close>

definition basic_latin_chars :: pystr where
  "basic_latin_chars =
     [32, 33, 34, 35, 36, 37, 38, 39, 40, 41, 42, 43, 44, 45, 46, 47,
      58, 59, 60, 61, 62, 63, 64,
      91, 92, 93, 94, 95, 96,
      123, 124, 125, 126]"

text \<open>The literal of line 98, \<^verbatim>\<open>'0123456789'\<close>.\<close>

definition digit_chars :: pystr where
  "digit_chars = [48, 49, 50, 51, 52, 53, 54, 55, 56, 57]"

text \<open>
  The argument of line 102 is two adjacent string literals, which Python concatenates:
  the first holds seven full-width marks followed by two ASCII double quotes (code
  point 34), the second starts right after the two ASCII single quotes that end the
  first literal and open the second, and holds nine marks.
\<close>

definition punctuation_chars :: pystr where
  "punctuation_chars =
     [12290, 65292, 12289, 65307, 65306, 65311, 65281, 34, 34,
      12304, 12305, 12298, 12299, 65288, 65289, 183, 8212, 8230]"

text \<open>
  \<open>prepare_text\<close>: \<open>set(text)\<close>, three conditional \<open>update\<close>s, and
  \<open>''.join(sorted(unique_chars))\<close>.
\<close>

definition prepare_text :: "pystr \<Rightarrow> bool \<Rightarrow> bool \<Rightarrow> bool \<Rightarrow> pystr" where
  "prepare_text text keep_basic_latin keep_numbers keep_punctuation =
     (let unique_chars = set text;
          unique_chars = (if keep_basic_latin
                          then unique_chars \<union> set basic_latin_chars else unique_chars);
          unique_chars = (if keep_numbers
                          then unique_chars \<union> set digit_chars else unique_chars);
          unique_chars = (if keep_punctuation
                          then unique_chars \<union> set punctuation_chars else unique_chars)
      in sorted_list_of_set unique_chars)"

section \<open>Exceptions and results\<close>

text \<open>
  An exception is its class and the text \<open>str(e)\<close> gives for it. Every class below
  derives from \<open>Exception\<close>, so the handlers \<open>except Exception\<close> of the source catch
  all of them; \<open>OtherException\<close> stands for any further such class the font
  library or the operating system may raise, with the class name.
\<close>

datatype exn_class =
    FileNotFoundError | ValueError | RuntimeError | ZeroDivisionError | OverflowError
  | OtherException string

datatype py_exn = PyExn (exn_class: exn_class) (exn_str: pystr)

text \<open>ASCII literals of the source, as code points.\<close>

definition ascii :: "string \<Rightarrow> pystr" where
  "ascii s = map of_char s"

section \<open>Arithmetic of the size report\<close>

subsection \<open>Decimal text of an integer\<close>

text \<open>The decimal digits of a non-negative integer, most significant first.\<close>

function str_nat :: "int \<Rightarrow> pystr" where
  "str_nat n = (if n < 10 then [48 + n] else str_nat (n div 10) @ [48 + n mod 10])"
  by pat_completeness auto
termination
  by (relation "measure nat") auto

declare str_nat.simps [simp del]

definition str_int :: "int \<Rightarrow> pystr" where
  "str_int i = (if i < 0 then 45 # str_nat (- i) else str_nat i)"

subsection \<open>Binary64 floating point\<close>

text \<open>
  Python's \<open>float\<close> is IEEE 754 binary64. A finite value is kept as sign, magnitude
  and binary exponent: \<open>Finite s m e\<close>, with \<open>0 \<le> m\<close>, is \<open>(-1)^s * m * 2^e\<close>.
  The representation of a value is not unique and nothing below depends on which one
  is used.
\<close>

datatype pyfloat = Finite bool int int | Infinite bool | NaN

text \<open>The quotient \<open>a / b\<close> rounded to an integer, a tie going to the even neighbour.\<close>

definition round_half_even_div :: "int \<Rightarrow> int \<Rightarrow> int" where
  "round_half_even_div a b =
     (let q = a div b; r = a mod b
      in if 2 * r < b then q
         else if b < 2 * r then q + 1
         else if even q then q else q + 1)"

text \<open>
  \<open>round_to_double s num den\<close> is the binary64 value nearest to the rational
  \<open>num / den\<close> (\<open>0 \<le> num\<close>, \<open>0 < den\<close>; ties to even), with sign \<open>s\<close>:
  the exponent \<open>e1\<close> puts the quotient in \<open>[2^52, 2^53)\<close> units of \<open>2^e1\<close>, the
  least exponent is that of the subnormal numbers, and a result of \<open>2^1024\<close> or more
  is infinite.
\<close>

definition scaled_below :: "int \<Rightarrow> int \<Rightarrow> int \<Rightarrow> bool" where
  "scaled_below num den k =
     (if 0 \<le> k then num < den * 2 ^ nat k else num * 2 ^ nat (- k) < den)"

definition scaled_round :: "int \<Rightarrow> int \<Rightarrow> int \<Rightarrow> int" where
  "scaled_round num den e =
     (if 0 \<le> e then round_half_even_div num (den * 2 ^ nat e)
      else round_half_even_div (num * 2 ^ nat (- e)) den)"

definition round_to_double :: "bool \<Rightarrow> int \<Rightarrow> int \<Rightarrow> pyfloat" where
  "round_to_double s num den =
     (if num = 0 then Finite s 0 0
      else
        let e0 = bitlen num - bitlen den - 53;
            e1 = (if scaled_below num den (e0 + 53) then e0 else e0 + 1);
            e = max e1 (- 1074);
            m = scaled_round num den e
        in if m = 0 then Finite s 0 0
           else if 0 \<le> e \<and> 2 ^ 1024 \<le> m * 2 ^ nat e then Infinite s
           else Finite s m e)"

definition round_dyadic :: "bool \<Rightarrow> int \<Rightarrow> int \<Rightarrow> pyfloat" where
  "round_dyadic s m e =
     (if 0 \<le> e then round_to_double s (m * 2 ^ nat e) 1
      else round_to_double s m (2 ^ nat (- e)))"

text \<open>
  True division of two \<open>int\<close>s: correctly rounded, \<open>ZeroDivisionError\<close> for a zero
  divisor and \<open>OverflowError\<close> where the rounded quotient is no finite float.
\<close>

definition py_truediv :: "int \<Rightarrow> int \<Rightarrow> py_exn + pyfloat" where
  "py_truediv a b =
     (if b = 0 then Inl (PyExn ZeroDivisionError (ascii ''division by zero''))
      else case round_to_double ((a < 0) \<noteq> (b < 0)) \<bar>a\<bar> \<bar>b\<bar> of
             Finite s m e \<Rightarrow> Inr (Finite s m e)
           | _ \<Rightarrow> Inl (PyExn OverflowError
                       (ascii ''integer division result too large for a float'')))"

text \<open>The conversion of an \<open>int\<close> operand in mixed arithmetic.\<close>

definition float_of_int :: "int \<Rightarrow> py_exn + pyfloat" where
  "float_of_int i =
     (case round_to_double (i < 0) \<bar>i\<bar> 1 of
        Finite s m e \<Rightarrow> Inr (Finite s m e)
      | _ \<Rightarrow> Inl (PyExn OverflowError (ascii ''int too large to convert to float'')))"

text \<open>
  Float addition, subtraction and multiplication: the exact result, rounded. They
  raise nothing; an overflow is an infinity. An exact zero sum is \<open>+0.0\<close> unless
  both operands are \<open>-0.0\<close>.
\<close>

fun fl_neg :: "pyfloat \<Rightarrow> pyfloat" where
  "fl_neg (Finite s m e) = Finite (\<not> s) m e"
| "fl_neg (Infinite s) = Infinite (\<not> s)"
| "fl_neg NaN = NaN"

definition signed :: "bool \<Rightarrow> int \<Rightarrow> int" where
  "signed s m = (if s then - m else m)"

fun fl_add :: "pyfloat \<Rightarrow> pyfloat \<Rightarrow> pyfloat" where
  "fl_add (Finite s1 m1 e1) (Finite s2 m2 e2) =
     (let e = min e1 e2;
          i = signed s1 m1 * 2 ^ nat (e1 - e) + signed s2 m2 * 2 ^ nat (e2 - e)
      in if i = 0 then Finite (s1 \<and> s2) 0 0
         else round_dyadic (i < 0) \<bar>i\<bar> e)"
| "fl_add (Finite s1 m1 e1) (Infinite s2) = Infinite s2"
| "fl_add (Infinite s1) (Finite s2 m2 e2) = Infinite s1"
| "fl_add (Infinite s1) (Infinite s2) = (if s1 = s2 then Infinite s1 else NaN)"
| "fl_add NaN y = NaN"
| "fl_add x NaN = NaN"

definition fl_sub :: "pyfloat \<Rightarrow> pyfloat \<Rightarrow> pyfloat" where
  "fl_sub x y = fl_add x (fl_neg y)"

fun fl_mul :: "pyfloat \<Rightarrow> pyfloat \<Rightarrow> pyfloat" where
  "fl_mul (Finite s1 m1 e1) (Finite s2 m2 e2) = round_dyadic (s1 \<noteq> s2) (m1 * m2) (e1 + e2)"
| "fl_mul (Finite s1 m1 e1) (Infinite s2) = (if m1 = 0 then NaN else Infinite (s1 \<noteq> s2))"
| "fl_mul (Infinite s1) (Finite s2 m2 e2) = (if m2 = 0 then NaN else Infinite (s1 \<noteq> s2))"
| "fl_mul (Infinite s1) (Infinite s2) = Infinite (s1 \<noteq> s2)"
| "fl_mul NaN y = NaN"
| "fl_mul x NaN = NaN"

text \<open>
  The format \<open>.1f\<close>: the exact value of the float rounded to one decimal, ties to
  even, with the sign of the float (so a small negative value prints \<open>-0.0\<close>).
  \<open>one_decimal t\<close> is the text of \<open>t\<close> tenths.
\<close>

definition one_decimal :: "int \<Rightarrow> pystr" where
  "one_decimal t = str_nat (t div 10) @ [46] @ str_nat (t mod 10)"

fun format_1f :: "pyfloat \<Rightarrow> pystr" where
  "format_1f (Finite s m e) =
     (let t = (if 0 \<le> e then 10 * m * 2 ^ nat e
               else round_half_even_div (10 * m) (2 ^ nat (- e)))
      in (if s then [45] else []) @ one_decimal t)"
| "format_1f (Infinite s) = (if s then ascii ''-inf'' else ascii ''inf'')"
| "format_1f NaN = ascii ''nan''"

subsection \<open>\<open>format_file_size\<close>\<close>

definition format_file_size :: "int \<Rightarrow> py_exn + pystr" where
  "format_file_size size_bytes =
     (if size_bytes < 1024 then Inr (str_int size_bytes @ ascii '' B'')
      else if size_bytes < 1024 * 1024 then
        (case py_truediv size_bytes 1024 of
           Inl e \<Rightarrow> Inl e
         | Inr x \<Rightarrow> Inr (format_1f x @ ascii '' KB''))
      else
        (case py_truediv size_bytes (1024 * 1024) of
           Inl e \<Rightarrow> Inl e
         | Inr x \<Rightarrow> Inr (format_1f x @ ascii '' MB'')))"

section \<open>The world outside the program\<close>

text \<open>
  The file system, \<open>pathlib\<close> and the font library are not part of the program. They
  are a record of functions giving what each call returns for its arguments: a value,
  or the exception it raises. \<open>'f\<close> is the type of font objects (\<open>TTFont\<close>) and \<open>'s\<close>
  that of \<open>Subsetter\<close> objects; \<open>subsetter_subset\<close>, which changes the font in place,
  returns the font after the change.
\<close>

record name_record =
  nameID :: int
  toUnicode :: "py_exn + pystr"

record ('f, 's) fontlib =
  os_path_exists :: "pystr \<Rightarrow> bool"
  os_path_getsize :: "pystr \<Rightarrow> py_exn + int"
  path_suffix :: "pystr \<Rightarrow> pystr"
  unicode_lower :: "pystr \<Rightarrow> pystr"
  ttfont_open :: "pystr \<Rightarrow> py_exn + 'f"
  ttfont_close :: "'f \<Rightarrow> py_exn + unit"
  ttfont_names :: "'f \<Rightarrow> py_exn + name_record list"
  ttfont_getBestCmap :: "'f \<Rightarrow> py_exn + (int \<times> string) list option"
  ttfont_save :: "'f \<Rightarrow> pystr \<Rightarrow> py_exn + unit"
  subsetter_new :: "py_exn + 's"
  subsetter_populate :: "'s \<Rightarrow> pystr \<Rightarrow> py_exn + 's"
  subsetter_subset :: "'s \<Rightarrow> 'f \<Rightarrow> py_exn + 'f"

text \<open>
  \<open>str.lower\<close>: on a string of ASCII characters it maps \<open>A\<close>..\<open>Z\<close> to \<open>a\<close>..\<open>z\<close> and
  keeps the rest; on any other string it is what the Unicode tables of the
  interpreter say, a parameter here.
\<close>

definition ascii_lower_char :: "pychar \<Rightarrow> pychar" where
  "ascii_lower_char c = (if 65 \<le> c \<and> c \<le> 90 then c + 32 else c)"

definition py_lower :: "(pystr \<Rightarrow> pystr) \<Rightarrow> pystr \<Rightarrow> pystr" where
  "py_lower table s =
     (if list_all (\<lambda>c. c < 128) s then map ascii_lower_char s else table s)"

text \<open>
  A method returns a value or raises, and makes calls to the font library and the
  file system on the way: a run is its outcome with the list of those calls, in the
  order they were made.
\<close>

datatype 'f call =
    TTFont_call pystr
  | Close_call 'f
  | Names_call 'f
  | GetBestCmap_call 'f
  | Getsize_call pystr
  | Subsetter_call
  | Populate_call pystr
  | Subset_call 'f
  | Save_call 'f pystr

type_synonym ('f, 'a) run = "(py_exn + 'a) \<times> 'f call list"

definition returns :: "'a \<Rightarrow> ('f, 'a) run" where
  "returns x = (Inr x, [])"

definition raises :: "py_exn \<Rightarrow> ('f, 'a) run" where
  "raises e = (Inl e, [])"

definition perform :: "'f call \<Rightarrow> py_exn + 'a \<Rightarrow> ('f, 'a) run" where
  "perform c r = (r, [c])"

definition and_then :: "('f, 'a) run \<Rightarrow> ('a \<Rightarrow> ('f, 'b) run) \<Rightarrow> ('f, 'b) run" where
  "and_then m f =
     (case m of
        (Inl e, cs) \<Rightarrow> (Inl e, cs)
      | (Inr x, cs) \<Rightarrow> (case f x of (r, cs') \<Rightarrow> (r, cs @ cs')))"

definition try_except :: "('f, 'a) run \<Rightarrow> (py_exn \<Rightarrow> ('f, 'a) run) \<Rightarrow> ('f, 'a) run" where
  "try_except m handler =
     (case m of
        (Inl e, cs) \<Rightarrow> (case handler e of (r, cs') \<Rightarrow> (r, cs @ cs'))
      | (Inr x, cs) \<Rightarrow> (Inr x, cs))"

section \<open>\<open>FontSubsetter\<close>\<close>

definition supported_formats :: "pystr list" where
  "supported_formats = [ascii ''.ttf'', ascii ''.otf'', ascii ''.woff'', ascii ''.woff2'']"

text \<open>
  The message prefixes of lines 44, 48, 55 and 131 (Chinese for "font file does not
  exist: ", "unsupported font format: ", "invalid font file: " and "font subsetting
  failed: "), as code points.
\<close>

definition not_found_msg :: pystr where
  "not_found_msg = [23383, 20307, 25991, 20214, 19981, 23384, 22312, 58, 32]"

definition unsupported_msg :: pystr where
  "unsupported_msg = [19981, 25903, 25345, 30340, 23383, 20307, 26684, 24335, 58, 32]"

definition invalid_msg :: pystr where
  "invalid_msg = [26080, 25928, 30340, 23383, 20307, 25991, 20214, 58, 32]"

definition subset_failed_msg :: pystr where
  "subset_failed_msg = [23383, 20307, 35009, 21098, 22833, 36133, 58, 32]"

subsection \<open>\<open>validate_font_file\<close>\<close>

definition validate_font_file :: "('f, 's) fontlib \<Rightarrow> pystr \<Rightarrow> ('f, bool) run" where
  "validate_font_file lib font_path =
     (if \<not> os_path_exists lib font_path
      then raises (PyExn FileNotFoundError (not_found_msg @ font_path))
      else
        let file_ext = py_lower (unicode_lower lib) (path_suffix lib font_path)
        in if file_ext \<notin> set supported_formats
           then raises (PyExn ValueError (unsupported_msg @ file_ext))
           else try_except
                  (and_then (perform (TTFont_call font_path) (ttfont_open lib font_path))
                     (\<lambda>font.
                   and_then (perform (Close_call font) (ttfont_close lib font))
                     (\<lambda>_. returns True)))
                  (\<lambda>e. raises (PyExn ValueError (invalid_msg @ exn_str e))))"

subsection \<open>\<open>get_font_info\<close>\<close>

record font_info =
  name :: pystr
  char_count :: int
  file_size :: int

text \<open>The loop of lines 65 to 68: the first record with \<open>nameID == 1\<close> decides.\<close>

fun family_name :: "pystr \<Rightarrow> name_record list \<Rightarrow> py_exn + pystr" where
  "family_name font_name [] = Inr font_name"
| "family_name font_name (r # rs) =
     (if nameID r = 1 then toUnicode r else family_name font_name rs)"

text \<open>The body of the \<open>try\<close> statement, lines 60 to 83.\<close>

definition get_font_info_body :: "('f, 's) fontlib \<Rightarrow> pystr \<Rightarrow> ('f, font_info) run" where
  "get_font_info_body lib font_path =
     and_then (perform (TTFont_call font_path) (ttfont_open lib font_path)) (\<lambda>font.
     and_then (perform (Names_call font) (ttfont_names lib font)) (\<lambda>names.
     and_then (family_name (ascii ''Unknown'') names, []) (\<lambda>font_name.
     and_then (perform (GetBestCmap_call font) (ttfont_getBestCmap lib font)) (\<lambda>cmap.
     let char_count = (case cmap of None \<Rightarrow> 0 | Some items \<Rightarrow> int (length items))
     in
     and_then (perform (Getsize_call font_path) (os_path_getsize lib font_path)) (\<lambda>file_size.
     and_then (perform (Close_call font) (ttfont_close lib font)) (\<lambda>_.
     returns \<lparr>name = font_name, char_count = char_count, file_size = file_size\<rparr>))))))"

definition unknown_info :: font_info where
  "unknown_info = \<lparr>name = ascii ''Unknown'', char_count = 0, file_size = 0\<rparr>"

definition get_font_info :: "('f, 's) fontlib \<Rightarrow> pystr \<Rightarrow> ('f, font_info) run" where
  "get_font_info lib font_path =
     try_except (get_font_info_body lib font_path) (\<lambda>e. returns unknown_info)"

subsection \<open>\<open>subset_font\<close>\<close>

text \<open>The body of the \<open>try\<close> statement, lines 113 to 129.\<close>

definition subset_font_body ::
  "('f, 's) fontlib \<Rightarrow> pystr \<Rightarrow> pystr \<Rightarrow> pystr \<Rightarrow> ('f, bool) run" where
  "subset_font_body lib input_path output_path text =
     and_then (perform (TTFont_call input_path) (ttfont_open lib input_path)) (\<lambda>font.
     and_then (perform Subsetter_call (subsetter_new lib)) (\<lambda>subsetter.
     and_then (perform (Populate_call text) (subsetter_populate lib subsetter text))
       (\<lambda>subsetter.
     and_then (perform (Subset_call font) (subsetter_subset lib subsetter font)) (\<lambda>font.
     and_then (perform (Save_call font output_path) (ttfont_save lib font output_path))
       (\<lambda>_.
     and_then (perform (Close_call font) (ttfont_close lib font)) (\<lambda>_.
     returns True))))))"

definition subset_font ::
  "('f, 's) fontlib \<Rightarrow> pystr \<Rightarrow> pystr \<Rightarrow> pystr \<Rightarrow> ('f, bool) run" where
  "subset_font lib input_path output_path text =
     and_then (validate_font_file lib input_path) (\<lambda>_.
     try_except (subset_font_body lib input_path output_path text)
       (\<lambda>e. raises (PyExn RuntimeError (subset_failed_msg @ exn_str e))))"

section \<open>The size reduction of the driver\<close>

text \<open>
  Lines 192 to 195 of \<open>main\<close>: the lines printed for the two font infos, or the
  exception raised. The prefix of line 195 is two spaces and the Chinese for "size
  reduced: ".
\<close>

definition size_reduced_msg :: pystr where
  "size_reduced_msg = [32, 32, 22823, 23567, 20943, 23569, 58, 32]"

definition size_reduction :: "font_info \<Rightarrow> font_info \<Rightarrow> py_exn + pystr list" where
  "size_reduction original_info subset_info =
     (if file_size original_info > 0 then
        (case py_truediv (file_size subset_info) (file_size original_info) of
           Inl e \<Rightarrow> Inl e
         | Inr fraction \<Rightarrow>
        (case float_of_int 1 of
           Inl e \<Rightarrow> Inl e
         | Inr one \<Rightarrow>
        (case float_of_int 100 of
           Inl e \<Rightarrow> Inl e
         | Inr hundred \<Rightarrow>
             let compression_ratio = fl_mul (fl_sub one fraction) hundred
             in Inr [size_reduced_msg @ format_1f compression_ratio @ ascii ''%''])))
      else Inr [])"

section \<open>An example world\<close>

text \<open>
  A world to run the methods in. Fonts and subsetters are numbers. \<open>a.TTF\<close> is a
  sound font of 2048 bytes with two name records and two mapped characters;
  \<open>notes.txt\<close> exists and is no font; \<open>broken.otf\<close> exists and cannot be opened;
  \<open>noname.ttf\<close> opens and has no name table, \<open>badname.ttf\<close> has a family name that
  cannot be decoded, \<open>nocmap.ttf\<close> fails to give its character map, and the size
  of \<open>nosize.ttf\<close> cannot be read; no other path exists. Saving works to \<open>out.ttf\<close>
  only.
\<close>

definition demo_font :: "pystr \<Rightarrow> int" where
  "demo_font p =
     (if p = ascii ''a.TTF'' then 1
      else if p = ascii ''noname.ttf'' then 2
      else if p = ascii ''badname.ttf'' then 3
      else if p = ascii ''nocmap.ttf'' then 4
      else if p = ascii ''nosize.ttf'' then 5
      else 0)"

definition demo_lib :: "(int, int) fontlib" where
  "demo_lib =
     \<lparr>os_path_exists = (\<lambda>p. demo_font p \<noteq> 0 \<or> p = ascii ''notes.txt''
                              \<or> p = ascii ''broken.otf''),
      os_path_getsize = (\<lambda>p. if p = ascii ''nosize.ttf''
                              then Inl (PyExn (OtherException ''PermissionError'')
                                         (ascii ''denied''))
                              else Inr 2048),
      path_suffix = (\<lambda>p. drop (length p - 4) p),
      unicode_lower = (\<lambda>s. s),
      ttfont_open = (\<lambda>p. if demo_font p = 0
                          then Inl (PyExn (OtherException ''TTLibError'')
                                     (ascii ''bad sfntVersion''))
                          else Inr (demo_font p)),
      ttfont_close = (\<lambda>f. Inr ()),
      ttfont_names = (\<lambda>f. if f = 2
                           then Inl (PyExn (OtherException ''KeyError'') (ascii ''name''))
                           else Inr [\<lparr>nameID = 0, toUnicode = Inr (ascii ''(c)'')\<rparr>,
                                     \<lparr>nameID = 1,
                                      toUnicode =
                                        (if f = 3
                                         then Inl (PyExn (OtherException ''UnicodeDecodeError'')
                                                    (ascii ''bad bytes''))
                                         else Inr (ascii ''Demo''))\<rparr>]),
      ttfont_getBestCmap = (\<lambda>f. if f = 4
                                 then Inl (PyExn (OtherException ''TTLibError'')
                                            (ascii ''bad cmap''))
                                 else Inr (Some [(65, ''A''), (66, ''B'')])),
      ttfont_save = (\<lambda>f p. if p = ascii ''out.ttf'' then Inr ()
                            else Inl (PyExn FileNotFoundError (ascii ''no such directory''))),
      subsetter_new = Inr 0,
      subsetter_populate = (\<lambda>s t. Inr (s + 1)),
      subsetter_subset = (\<lambda>s f. Inr (f + 10))\<rparr>"

section \<open>Properties of the character-set preparer\<close>

text \<open>The set of characters that \<open>prepare_text\<close> sorts.\<close>

lemma set_prepare_text:
  "set (prepare_text text bl nm pu) =
     set text \<union> (if bl then set basic_latin_chars else {})
              \<union> (if nm then set digit_chars else {})
              \<union> (if pu then set punctuation_chars else {})"
  by (simp add: prepare_text_def Let_def)

lemma prepare_text_eq:
  "prepare_text text bl nm pu =
     sorted_list_of_set (set text \<union> (if bl then set basic_latin_chars else {})
              \<union> (if nm then set digit_chars else {})
              \<union> (if pu then set punctuation_chars else {}))"
  by (simp add: prepare_text_def Let_def)

lemma prepare_text_sort_remdups:
  "prepare_text text bl nm pu =
     sort (remdups (text @ (if bl then basic_latin_chars else [])
                         @ (if nm then digit_chars else [])
                         @ (if pu then punctuation_chars else [])))"
  by (simp add: prepare_text_eq sorted_list_of_set_sort_remdups[symmetric] Un_assoc)

text \<open>
  C1. For every input string and every value of the three flags, the result of
  \<open>prepare_text\<close> has no duplicate character, and every character of the input is a
  character of the result.
\<close>

theorem prepare_text_distinct_superset:
  "distinct (prepare_text text bl nm pu) \<and> set text \<subseteq> set (prepare_text text bl nm pu)"
proof
  show "distinct (prepare_text text bl nm pu)"
    by (simp add: prepare_text_eq)
  show "set text \<subseteq> set (prepare_text text bl nm pu)"
    unfolding set_prepare_text by blast
qed

text \<open>
  C3. Each flag is monotone: with the input and the other two flags fixed, the
  characters of the result with the flag off are among those of the result with the
  flag on.
\<close>

theorem prepare_text_flag_monotone:
  "set (prepare_text text False nm pu) \<subseteq> set (prepare_text text True nm pu) \<and>
   set (prepare_text text bl False pu) \<subseteq> set (prepare_text text bl True pu) \<and>
   set (prepare_text text bl nm False) \<subseteq> set (prepare_text text bl nm True)"
  unfolding set_prepare_text by auto

lemma prepare_text_cong:
  "set t1 = set t2 \<Longrightarrow> prepare_text t1 bl nm pu = prepare_text t2 bl nm pu"
  by (simp add: prepare_text_eq)

lemma prepare_text_idem:
  "prepare_text (prepare_text text bl nm pu) bl nm pu = prepare_text text bl nm pu"
proof -
  define X where "X = (if bl then set basic_latin_chars else {})
      \<union> (if nm then set digit_chars else {}) \<union> (if pu then set punctuation_chars else {})"
  have p: "prepare_text t bl nm pu = sorted_list_of_set (set t \<union> X)" for t
    by (simp add: prepare_text_eq X_def Un_assoc)
  have "finite X"
    by (simp add: X_def)
  then have s: "set (prepare_text text bl nm pu) = set text \<union> X"
    by (simp add: p)
  have "set (prepare_text text bl nm pu) \<union> X = set text \<union> X"
    unfolding s by blast
  then show ?thesis
    by (simp only: p)
qed

text \<open>
  C9. \<open>prepare_text\<close> is idempotent, and two inputs with the same set of characters
  (in any order, with any repetitions) give the same result, the flags being fixed.
\<close>

theorem prepare_text_idempotent_permutation_invariant:
  "prepare_text (prepare_text text bl nm pu) bl nm pu = prepare_text text bl nm pu \<and>
   (set t1 = set t2 \<longrightarrow> prepare_text t1 bl nm pu = prepare_text t2 bl nm pu)"
  using prepare_text_idem prepare_text_cong by blast

text \<open>
  The inputs \<open>"bab"\<close> and \<open>"abaa"\<close> with only the digits kept: both give
  \<open>"0123456789ab"\<close>, and so does the result given back as input.
\<close>

theorem prepare_text_idempotent_permutation_invariant_witness:
  "set [98, 97, 98 :: int] = set [97, 98, 97, 97] \<and>
   prepare_text [98, 97, 98] False True False = [48, 49, 50, 51, 52, 53, 54, 55, 56, 57, 97, 98] \<and>
   prepare_text [97, 98, 97, 97] False True False = prepare_text [98, 97, 98] False True False \<and>
   prepare_text (prepare_text [98, 97, 98] False True False) False True False
     = prepare_text [98, 97, 98] False True False"
proof -
  have e: "set [98, 97, 98 :: int] = set [97, 98, 97, 97]"
    by auto
  have v: "prepare_text [98, 97, 98] False True False
             = [48, 49, 50, 51, 52, 53, 54, 55, 56, 57, 97, 98]"
    by (simp add: prepare_text_sort_remdups digit_chars_def)
  from e v prepare_text_idempotent_permutation_invariant
         [of "[98, 97, 98]" False True False "[97, 98, 97, 97]" "[98, 97, 98]"]
  show ?thesis
    by metis
qed

subsection \<open>The empty input\<close>

lemma card_basic_latin_chars: "card (set basic_latin_chars) = 33"
  by (simp add: length_remdups_card_conv[symmetric] basic_latin_chars_def)

lemma card_digit_chars: "card (set digit_chars) = 10"
  by (simp add: length_remdups_card_conv[symmetric] digit_chars_def)

lemma card_punctuation_chars: "card (set punctuation_chars) = 17"
  by (simp add: length_remdups_card_conv[symmetric] punctuation_chars_def)

lemma prepare_text_all_flags:
  "prepare_text [] True True True =
     [32..64] @ [91..96] @ [123..126] @
     [183, 8212, 8230, 12289, 12290, 12298, 12299, 12304, 12305,
      65281, 65288, 65289, 65292, 65306, 65307, 65311]"
  by (simp add: prepare_text_sort_remdups basic_latin_chars_def digit_chars_def
        punctuation_chars_def upto_rec_numeral)

text \<open>
  C2 as stated fails: the first literal has 33 characters, not 31; the third has 17
  distinct characters, not 15, one of them the ASCII double quote, which the first
  literal has as well; and the result for the empty input with all flags on has 59
  characters, not 56.
\<close>

theorem prepare_text_supplementary_sets_counterexample:
  "card (set basic_latin_chars) = 33 \<and>
   card (set punctuation_chars) = 17 \<and>
   set basic_latin_chars \<inter> set punctuation_chars = {34} \<and>
   length (prepare_text [] True True True) = 59"
proof -
  have "set basic_latin_chars \<inter> set punctuation_chars = {34}"
    by (simp add: basic_latin_chars_def punctuation_chars_def)
  moreover have "length (prepare_text [] True True True) = 59"
    by (simp add: prepare_text_all_flags)
  ultimately show ?thesis
    using card_basic_latin_chars card_punctuation_chars by blast
qed

text \<open>
  C2, amended. \<open>prepare_text\<close> of the empty string is empty with all flags off, and
  with all flags on it is exactly the union of the three fixed sets, in ascending
  order. The basic Latin set has 33 characters and the digit set 10; the digit set is
  disjoint from the other two; the punctuation set has 16 characters outside ASCII
  (the CJK and full-width marks), none of which is in the other two sets.
\<close>

theorem prepare_text_empty_input:
  "prepare_text [] False False False = [] \<and>
   prepare_text [] True True True =
     sorted_list_of_set (set basic_latin_chars \<union> set digit_chars \<union> set punctuation_chars) \<and>
   card (set basic_latin_chars) = 33 \<and>
   card (set digit_chars) = 10 \<and>
   set basic_latin_chars \<inter> set digit_chars = {} \<and>
   set digit_chars \<inter> set punctuation_chars = {} \<and>
   card (set (filter (\<lambda>c. 127 < c) punctuation_chars)) = 16 \<and>
   set (filter (\<lambda>c. 127 < c) punctuation_chars)
     \<inter> (set basic_latin_chars \<union> set digit_chars) = {}"
proof -
  have "prepare_text [] False False False = []"
    by (simp add: prepare_text_def)
  moreover have "prepare_text [] True True True =
     sorted_list_of_set (set basic_latin_chars \<union> set digit_chars \<union> set punctuation_chars)"
    by (simp add: prepare_text_def)
  moreover have "set basic_latin_chars \<inter> set digit_chars = {}"
    by (simp add: basic_latin_chars_def digit_chars_def)
  moreover have "set digit_chars \<inter> set punctuation_chars = {}"
    by (simp add: digit_chars_def punctuation_chars_def)
  moreover have "card (set (filter (\<lambda>c. 127 < c) punctuation_chars)) = 16"
    by (simp add: length_remdups_card_conv[symmetric] punctuation_chars_def)
  moreover have "set (filter (\<lambda>c. 127 < c) punctuation_chars)
     \<inter> (set basic_latin_chars \<union> set digit_chars) = {}"
    by (simp add: basic_latin_chars_def digit_chars_def punctuation_chars_def)
  ultimately show ?thesis
    using card_basic_latin_chars card_digit_chars by blast
qed

section \<open>Properties of \<open>format_file_size\<close>\<close>

text \<open>
  C10. At the two thresholds the larger unit is used: \<open>format_file_size(1024)\<close> is
  \<open>"1.0 KB"\<close> and \<open>format_file_size(1024 * 1024)\<close> is \<open>"1.0 MB"\<close>.
\<close>

theorem format_file_size_at_thresholds:
  "format_file_size 1024 = Inr (ascii ''1.0 KB'') \<and>
   format_file_size (1024 * 1024) = Inr (ascii ''1.0 MB'')"
  by code_simp

section \<open>Properties of the methods that call the font library\<close>

subsection \<open>Runs\<close>


lemma and_then_perform_Inl [simp]: "and_then (perform c (Inl e)) f = (Inl e, [c])"
  by (simp add: and_then_def perform_def)

lemma and_then_perform_Inr [simp]:
  "and_then (perform c (Inr x)) f = (fst (f x), c # snd (f x))"
  by (simp add: and_then_def perform_def split: prod.splits)

lemma and_then_pure_Inl [simp]: "and_then (Inl e, []) f = (Inl e, [])"
  by (simp add: and_then_def)

lemma and_then_pure_Inr [simp]: "and_then (Inr x, []) f = f x"
  by (simp add: and_then_def split: prod.splits)

lemma fst_and_then:
  "fst (and_then m f) = (case fst m of Inl e \<Rightarrow> Inl e | Inr x \<Rightarrow> fst (f x))"
  by (cases m) (simp add: and_then_def split: sum.splits prod.splits)

lemma fst_returns [simp]: "fst (returns x) = Inr x"
  by (simp add: returns_def)

lemma snd_returns [simp]: "snd (returns x) = []"
  by (simp add: returns_def)

lemma fst_raises [simp]: "fst (raises e) = Inl e"
  by (simp add: raises_def)

lemma snd_raises [simp]: "snd (raises e) = []"
  by (simp add: raises_def)

lemma try_except_Inl [simp]:
  "try_except (Inl e, cs) h = (fst (h e), cs @ snd (h e))"
  by (simp add: try_except_def split: prod.splits)

lemma try_except_Inr [simp]: "try_except (Inr x, cs) h = (Inr x, cs)"
  by (simp add: try_except_def)

subsection \<open>\<open>validate_font_file\<close>\<close>

lemma msgs_differ: "unsupported_msg @ x \<noteq> invalid_msg @ y"
  by (simp add: unsupported_msg_def invalid_msg_def)

text \<open>
  C4. \<open>validate_font_file\<close> raises \<open>FileNotFoundError\<close> for a path that does not
  exist. For one that exists it raises a \<open>ValueError\<close> saying the format is not
  supported when the lower-cased suffix is none of \<open>.ttf\<close>, \<open>.otf\<close>, \<open>.woff\<close>,
  \<open>.woff2\<close>, and then it has made no call to the font library; the comparison ignores
  the case of an ASCII suffix. For a supported suffix it raises a \<open>ValueError\<close> saying
  the font is invalid, with the text of the cause, when the font library cannot open
  the file. The two \<open>ValueError\<close>s are different values, whatever the suffix and the
  cause.
\<close>

theorem validate_font_file_errors:
  assumes ext: "ext = py_lower (unicode_lower lib) (path_suffix lib p)"
  shows
  "(\<not> os_path_exists lib p \<longrightarrow>
      validate_font_file lib p = (Inl (PyExn FileNotFoundError (not_found_msg @ p)), [])) \<and>
   (os_path_exists lib p \<and> ext \<notin> set supported_formats \<longrightarrow>
      validate_font_file lib p = (Inl (PyExn ValueError (unsupported_msg @ ext)), [])) \<and>
   (os_path_exists lib p \<and> ext \<in> set supported_formats \<and> ttfont_open lib p = Inl e \<longrightarrow>
      validate_font_file lib p
        = (Inl (PyExn ValueError (invalid_msg @ exn_str e)), [TTFont_call p])) \<and>
   (list_all (\<lambda>c. c < 128) (path_suffix lib p) \<longrightarrow>
      ext = map ascii_lower_char (path_suffix lib p)) \<and>
   PyExn ValueError (unsupported_msg @ ext) \<noteq> PyExn ValueError (invalid_msg @ exn_str e)"
  using ext
  by (simp add: validate_font_file_def Let_def raises_def msgs_differ py_lower_def)

lemma validate_font_file_ok:
  "os_path_exists lib p \<Longrightarrow>
   py_lower (unicode_lower lib) (path_suffix lib p) \<in> set supported_formats \<Longrightarrow>
   ttfont_open lib p = Inr f \<Longrightarrow> ttfont_close lib f = Inr u \<Longrightarrow>
   validate_font_file lib p = (Inr True, [TTFont_call p, Close_call f])"
  by (simp add: validate_font_file_def Let_def)

lemma validate_font_file_close_fails:
  "os_path_exists lib p \<Longrightarrow>
   py_lower (unicode_lower lib) (path_suffix lib p) \<in> set supported_formats \<Longrightarrow>
   ttfont_open lib p = Inr f \<Longrightarrow> ttfont_close lib f = Inl e \<Longrightarrow>
   validate_font_file lib p
     = (Inl (PyExn ValueError (invalid_msg @ exn_str e)), [TTFont_call p, Close_call f])"
  by (simp add: validate_font_file_def Let_def)

lemma demo_exists:
  "\<not> os_path_exists demo_lib (ascii ''missing.ttf'')"
  "os_path_exists demo_lib (ascii ''notes.txt'')"
  "os_path_exists demo_lib (ascii ''broken.otf'')"
  "os_path_exists demo_lib (ascii ''a.TTF'')"
  by (simp_all add: demo_lib_def demo_font_def ascii_def)

lemma demo_ext:
  "py_lower (unicode_lower demo_lib) (path_suffix demo_lib (ascii ''notes.txt'')) = ascii ''.txt''"
  "py_lower (unicode_lower demo_lib) (path_suffix demo_lib (ascii ''broken.otf'')) = ascii ''.otf''"
  "py_lower (unicode_lower demo_lib) (path_suffix demo_lib (ascii ''a.TTF'')) = ascii ''.ttf''"
  "py_lower (unicode_lower demo_lib) (path_suffix demo_lib (ascii ''missing.ttf'')) = ascii ''.ttf''"
  by (simp_all add: demo_lib_def py_lower_def ascii_def ascii_lower_char_def)

lemma supported_mem:
  "ascii ''.txt'' \<notin> set supported_formats"
  "ascii ''.otf'' \<in> set supported_formats"
  "ascii ''.ttf'' \<in> set supported_formats"
  by (simp_all add: supported_formats_def ascii_def)


text \<open>
  In the example world: a missing path, \<open>notes.txt\<close>, \<open>broken.otf\<close>, and the sound
  \<open>a.TTF\<close>, whose upper-case suffix is accepted.
\<close>

theorem validate_font_file_errors_witness:
  "\<not> os_path_exists demo_lib (ascii ''missing.ttf'') \<and>
   validate_font_file demo_lib (ascii ''missing.ttf'')
     = (Inl (PyExn FileNotFoundError (not_found_msg @ ascii ''missing.ttf'')), []) \<and>
   os_path_exists demo_lib (ascii ''notes.txt'') \<and>
   ascii ''.txt'' \<notin> set supported_formats \<and>
   validate_font_file demo_lib (ascii ''notes.txt'')
     = (Inl (PyExn ValueError (unsupported_msg @ ascii ''.txt'')), []) \<and>
   os_path_exists demo_lib (ascii ''broken.otf'') \<and>
   ascii ''.otf'' \<in> set supported_formats \<and>
   validate_font_file demo_lib (ascii ''broken.otf'')
     = (Inl (PyExn ValueError (invalid_msg @ ascii ''bad sfntVersion'')),
        [TTFont_call (ascii ''broken.otf'')]) \<and>
   validate_font_file demo_lib (ascii ''a.TTF'')
     = (Inr True, [TTFont_call (ascii ''a.TTF''), Close_call 1])"
proof -
  have o: "ttfont_open demo_lib (ascii ''broken.otf'')
             = Inl (PyExn (OtherException ''TTLibError'') (ascii ''bad sfntVersion''))"
    by (simp add: demo_lib_def demo_font_def ascii_def)
  have a: "ttfont_open demo_lib (ascii ''a.TTF'') = Inr 1"
          "ttfont_close demo_lib 1 = Inr ()"
    by (simp_all add: demo_lib_def demo_font_def ascii_def)
  note m = validate_font_file_errors [OF demo_ext(4) [symmetric]]
  note n = validate_font_file_errors [OF demo_ext(1) [symmetric]]
  note b = validate_font_file_errors [OF demo_ext(2) [symmetric],
             of "PyExn (OtherException ''TTLibError'') (ascii ''bad sfntVersion'')"]
  from m n b o demo_exists supported_mem
    validate_font_file_ok [OF demo_exists(4) _ a, unfolded demo_ext, OF supported_mem(3)]
  show ?thesis
    by simp
qed

subsection \<open>\<open>get_font_info\<close>\<close>

lemma get_font_info_total: "\<exists>info cs. get_font_info lib p = (Inr info, cs)"
  by (cases "get_font_info_body lib p"; cases "fst (get_font_info_body lib p)")
     (simp_all add: get_font_info_def returns_def)

lemma get_font_info_body_fails:
  "fst (get_font_info_body lib p) = Inl e \<Longrightarrow> fst (get_font_info lib p) = Inr unknown_info"
  by (cases "get_font_info_body lib p") (simp add: get_font_info_def)

lemma get_font_info_ok:
  "ttfont_open lib p = Inr f \<Longrightarrow> ttfont_names lib f = Inr ns \<Longrightarrow>
   family_name (ascii ''Unknown'') ns = Inr nm \<Longrightarrow> ttfont_getBestCmap lib f = Inr cm \<Longrightarrow>
   os_path_getsize lib p = Inr sz \<Longrightarrow> ttfont_close lib f = Inr u \<Longrightarrow>
   get_font_info lib p =
     (Inr \<lparr>name = nm,
           char_count = (case cm of None \<Rightarrow> 0 | Some items \<Rightarrow> int (length items)),
           file_size = sz\<rparr>,
      [TTFont_call p, Names_call f, GetBestCmap_call f, Getsize_call p, Close_call f])"
  by (simp add: get_font_info_def get_font_info_body_def Let_def)

text \<open>
  C5. \<open>get_font_info\<close> never raises: it always returns a font info. Whenever the body
  of its \<open>try\<close> raises, and in particular when opening the font, reading the name
  table, decoding the family name, reading the character map or reading the file size
  raises, the font info returned is \<open>{name: "Unknown", char_count: 0, file_size: 0}\<close>.
\<close>

theorem get_font_info_never_raises:
  "(\<exists>info cs. get_font_info lib p = (Inr info, cs)) \<and>
   (fst (get_font_info_body lib p) = Inl e \<longrightarrow>
      fst (get_font_info lib p) = Inr unknown_info) \<and>
   (ttfont_open lib p = Inl e \<longrightarrow> fst (get_font_info lib p) = Inr unknown_info) \<and>
   (ttfont_open lib p = Inr f \<and> ttfont_names lib f = Inl e \<longrightarrow>
      fst (get_font_info lib p) = Inr unknown_info) \<and>
   (ttfont_open lib p = Inr f \<and> ttfont_names lib f = Inr ns \<and>
    family_name (ascii ''Unknown'') ns = Inl e \<longrightarrow>
      fst (get_font_info lib p) = Inr unknown_info) \<and>
   (ttfont_open lib p = Inr f \<and> ttfont_getBestCmap lib f = Inl e \<longrightarrow>
      fst (get_font_info lib p) = Inr unknown_info) \<and>
   (os_path_getsize lib p = Inl e \<longrightarrow> fst (get_font_info lib p) = Inr unknown_info)"
proof (intro conjI impI)
  show "\<exists>info cs. get_font_info lib p = (Inr info, cs)"
    by (rule get_font_info_total)
  show "fst (get_font_info lib p) = Inr unknown_info"
    if "fst (get_font_info_body lib p) = Inl e"
    using that by (rule get_font_info_body_fails)
  show "fst (get_font_info lib p) = Inr unknown_info" if "ttfont_open lib p = Inl e"
    using that by (simp add: get_font_info_def get_font_info_body_def)
  show "fst (get_font_info lib p) = Inr unknown_info"
    if "ttfont_open lib p = Inr f \<and> ttfont_names lib f = Inl e"
    using that by (simp add: get_font_info_def get_font_info_body_def)
  show "fst (get_font_info lib p) = Inr unknown_info"
    if "ttfont_open lib p = Inr f \<and> ttfont_names lib f = Inr ns \<and>
        family_name (ascii ''Unknown'') ns = Inl e"
    using that by (simp add: get_font_info_def get_font_info_body_def)
  show "fst (get_font_info lib p) = Inr unknown_info"
    if "ttfont_open lib p = Inr f \<and> ttfont_getBestCmap lib f = Inl e"
    using that
    by (cases "ttfont_names lib f"; cases "family_name (ascii ''Unknown'') (projr (ttfont_names lib f))")
       (simp_all add: get_font_info_def get_font_info_body_def)
  show "fst (get_font_info lib p) = Inr unknown_info" if "os_path_getsize lib p = Inl e"
  proof (cases "fst (get_font_info_body lib p)")
    case (Inl a)
    then show ?thesis by (rule get_font_info_body_fails)
  next
    case (Inr b)
    with that show ?thesis
      by (simp add: get_font_info_body_def Let_def fst_and_then perform_def
            split: sum.splits)
  qed
qed


lemma demo_open:
  "ttfont_open demo_lib (ascii ''broken.otf'')
     = Inl (PyExn (OtherException ''TTLibError'') (ascii ''bad sfntVersion''))"
  "ttfont_open demo_lib (ascii ''a.TTF'') = Inr 1"
  "ttfont_open demo_lib (ascii ''noname.ttf'') = Inr 2"
  "ttfont_open demo_lib (ascii ''badname.ttf'') = Inr 3"
  "ttfont_open demo_lib (ascii ''nocmap.ttf'') = Inr 4"
  "ttfont_open demo_lib (ascii ''nosize.ttf'') = Inr 5"
  by (simp_all add: demo_lib_def demo_font_def ascii_def)

lemma demo_names:
  "ttfont_names demo_lib 2 = Inl (PyExn (OtherException ''KeyError'') (ascii ''name''))"
  "ttfont_names demo_lib 3 =
     Inr [\<lparr>nameID = 0, toUnicode = Inr (ascii ''(c)'')\<rparr>,
          \<lparr>nameID = 1,
           toUnicode = Inl (PyExn (OtherException ''UnicodeDecodeError'') (ascii ''bad bytes''))\<rparr>]"
  "ttfont_names demo_lib 1 =
     Inr [\<lparr>nameID = 0, toUnicode = Inr (ascii ''(c)'')\<rparr>,
          \<lparr>nameID = 1, toUnicode = Inr (ascii ''Demo'')\<rparr>]"
  by (simp_all add: demo_lib_def)

lemma demo_rest:
  "ttfont_getBestCmap demo_lib 4 = Inl (PyExn (OtherException ''TTLibError'') (ascii ''bad cmap''))"
  "ttfont_getBestCmap demo_lib 1 = Inr (Some [(65, ''A''), (66, ''B'')])"
  "os_path_getsize demo_lib (ascii ''nosize.ttf'')
     = Inl (PyExn (OtherException ''PermissionError'') (ascii ''denied''))"
  "os_path_getsize demo_lib (ascii ''a.TTF'') = Inr 2048"
  "ttfont_close demo_lib f = Inr ()"
  by (simp_all add: demo_lib_def ascii_def)

text \<open>
  In the example world each of the five failures occurs for one path and gives the
  sentinel; \<open>a.TTF\<close> gives its name, two characters and 2048 bytes.
\<close>

theorem get_font_info_never_raises_witness:
  "ttfont_open demo_lib (ascii ''broken.otf'')
     = Inl (PyExn (OtherException ''TTLibError'') (ascii ''bad sfntVersion'')) \<and>
   fst (get_font_info_body demo_lib (ascii ''broken.otf''))
     = Inl (PyExn (OtherException ''TTLibError'') (ascii ''bad sfntVersion'')) \<and>
   fst (get_font_info demo_lib (ascii ''broken.otf'')) = Inr unknown_info \<and>
   ttfont_open demo_lib (ascii ''noname.ttf'') = Inr 2 \<and>
   ttfont_names demo_lib 2 = Inl (PyExn (OtherException ''KeyError'') (ascii ''name'')) \<and>
   fst (get_font_info demo_lib (ascii ''noname.ttf'')) = Inr unknown_info \<and>
   ttfont_open demo_lib (ascii ''badname.ttf'') = Inr 3 \<and>
   family_name (ascii ''Unknown'') (projr (ttfont_names demo_lib 3))
     = Inl (PyExn (OtherException ''UnicodeDecodeError'') (ascii ''bad bytes'')) \<and>
   fst (get_font_info demo_lib (ascii ''badname.ttf'')) = Inr unknown_info \<and>
   ttfont_open demo_lib (ascii ''nocmap.ttf'') = Inr 4 \<and>
   ttfont_getBestCmap demo_lib 4
     = Inl (PyExn (OtherException ''TTLibError'') (ascii ''bad cmap'')) \<and>
   fst (get_font_info demo_lib (ascii ''nocmap.ttf'')) = Inr unknown_info \<and>
   os_path_getsize demo_lib (ascii ''nosize.ttf'')
     = Inl (PyExn (OtherException ''PermissionError'') (ascii ''denied'')) \<and>
   fst (get_font_info demo_lib (ascii ''nosize.ttf'')) = Inr unknown_info \<and>
   get_font_info demo_lib (ascii ''a.TTF'')
     = (Inr \<lparr>name = ascii ''Demo'', char_count = 2, file_size = 2048\<rparr>,
        [TTFont_call (ascii ''a.TTF''), Names_call 1, GetBestCmap_call 1,
         Getsize_call (ascii ''a.TTF''), Close_call 1])"
proof -
  have body: "fst (get_font_info_body demo_lib (ascii ''broken.otf''))
     = Inl (PyExn (OtherException ''TTLibError'') (ascii ''bad sfntVersion''))"
    by (simp add: get_font_info_body_def demo_open)
  have fam: "family_name (ascii ''Unknown'') (projr (ttfont_names demo_lib 3))
     = Inl (PyExn (OtherException ''UnicodeDecodeError'') (ascii ''bad bytes''))"
    by (simp add: demo_names)
  have fam1: "family_name (ascii ''Unknown'')
        [\<lparr>nameID = 0, toUnicode = Inr (ascii ''(c)'')\<rparr>,
         \<lparr>nameID = 1, toUnicode = Inr (ascii ''Demo'')\<rparr>] = Inr (ascii ''Demo'')"
    by simp
  have ok: "get_font_info demo_lib (ascii ''a.TTF'')
     = (Inr \<lparr>name = ascii ''Demo'', char_count = 2, file_size = 2048\<rparr>,
        [TTFont_call (ascii ''a.TTF''), Names_call 1, GetBestCmap_call 1,
         Getsize_call (ascii ''a.TTF''), Close_call 1])"
    using get_font_info_ok [OF demo_open(2) demo_names(3) fam1 demo_rest(2) demo_rest(4)
            demo_rest(5)]
    by simp
  note t1 = get_font_info_never_raises
      [of demo_lib "ascii ''broken.otf''"
          "PyExn (OtherException ''TTLibError'') (ascii ''bad sfntVersion'')"]
  note t2 = get_font_info_never_raises
      [of demo_lib "ascii ''noname.ttf''"
          "PyExn (OtherException ''KeyError'') (ascii ''name'')" 2]
  note t3 = get_font_info_never_raises
      [of demo_lib "ascii ''badname.ttf''"
          "PyExn (OtherException ''UnicodeDecodeError'') (ascii ''bad bytes'')" 3
          "projr (ttfont_names demo_lib 3)"]
  note t4 = get_font_info_never_raises
      [of demo_lib "ascii ''nocmap.ttf''"
          "PyExn (OtherException ''TTLibError'') (ascii ''bad cmap'')" 4]
  note t5 = get_font_info_never_raises
      [of demo_lib "ascii ''nosize.ttf''"
          "PyExn (OtherException ''PermissionError'') (ascii ''denied'')"]
  have n3: "ttfont_names demo_lib 3 = Inr (projr (ttfont_names demo_lib 3))"
    by (simp add: demo_names)
  from t1 body demo_open(1) have r1:
    "fst (get_font_info demo_lib (ascii ''broken.otf'')) = Inr unknown_info"
    by blast
  from t2 demo_open(3) demo_names(1) have r2:
    "fst (get_font_info demo_lib (ascii ''noname.ttf'')) = Inr unknown_info"
    by blast
  from t3 demo_open(4) n3 fam have r3:
    "fst (get_font_info demo_lib (ascii ''badname.ttf'')) = Inr unknown_info"
    by blast
  from t4 demo_open(5) demo_rest(1) have r4:
    "fst (get_font_info demo_lib (ascii ''nocmap.ttf'')) = Inr unknown_info"
    by blast
  from t5 demo_rest(3) have r5:
    "fst (get_font_info demo_lib (ascii ''nosize.ttf'')) = Inr unknown_info"
    by blast
  from r1 r2 r3 r4 r5 body fam ok demo_open demo_names(1) demo_rest(1) demo_rest(3)
  show ?thesis
    by blast
qed

subsection \<open>\<open>subset_font\<close>\<close>

lemma subset_font_body_ok:
  "ttfont_open lib inp = Inr f \<Longrightarrow> subsetter_new lib = Inr s \<Longrightarrow>
   subsetter_populate lib s text = Inr s' \<Longrightarrow> subsetter_subset lib s' f = Inr f' \<Longrightarrow>
   ttfont_save lib f' out = Inr u \<Longrightarrow> ttfont_close lib f' = Inr u' \<Longrightarrow>
   subset_font_body lib inp out text =
     (Inr True, [TTFont_call inp, Subsetter_call, Populate_call text, Subset_call f,
                 Save_call f' out, Close_call f'])"
  by (simp add: subset_font_body_def)

lemma subset_font_body_save_fails:
  "ttfont_open lib inp = Inr f \<Longrightarrow> subsetter_new lib = Inr s \<Longrightarrow>
   subsetter_populate lib s text = Inr s' \<Longrightarrow> subsetter_subset lib s' f = Inr f' \<Longrightarrow>
   ttfont_save lib f' out = Inl e \<Longrightarrow>
   subset_font_body lib inp out text =
     (Inl e, [TTFont_call inp, Subsetter_call, Populate_call text, Subset_call f,
              Save_call f' out])"
  by (simp add: subset_font_body_def)

lemma subset_font_body_subset_fails:
  "ttfont_open lib inp = Inr f \<Longrightarrow> subsetter_new lib = Inr s \<Longrightarrow>
   subsetter_populate lib s text = Inr s' \<Longrightarrow> subsetter_subset lib s' f = Inl e \<Longrightarrow>
   subset_font_body lib inp out text =
     (Inl e, [TTFont_call inp, Subsetter_call, Populate_call text, Subset_call f])"
  by (simp add: subset_font_body_def)

text \<open>
  C6. \<open>subset_font\<close> first runs \<open>validate_font_file\<close> on the input path: an exception
  of the validation is the exception of \<open>subset_font\<close>, unchanged, and nothing more is
  called. After a successful validation an exception \<open>e\<close> raised in the body of the
  \<open>try\<close> (opening, populating, subsetting, saving, closing) becomes one
  \<open>RuntimeError\<close> whose text is the prefix of line 131 followed by \<open>str(e)\<close>; the
  calls made are those of the validation followed by those of the body.
\<close>

theorem subset_font_errors:
  "(fst (validate_font_file lib inp) = Inl e \<longrightarrow>
      subset_font lib inp out text = (Inl e, snd (validate_font_file lib inp))) \<and>
   (fst (validate_font_file lib inp) = Inr v \<and>
    fst (subset_font_body lib inp out text) = Inl e \<longrightarrow>
      subset_font lib inp out text =
        (Inl (PyExn RuntimeError (subset_failed_msg @ exn_str e)),
         snd (validate_font_file lib inp) @ snd (subset_font_body lib inp out text))) \<and>
   (fst (validate_font_file lib inp) = Inr v \<and>
    fst (subset_font_body lib inp out text) = Inr b \<longrightarrow>
      subset_font lib inp out text =
        (Inr b, snd (validate_font_file lib inp) @ snd (subset_font_body lib inp out text)))"
  by (cases "validate_font_file lib inp"; cases "subset_font_body lib inp out text")
     (simp add: subset_font_def and_then_def raises_def split: sum.splits)


lemma demo_validate:
  "validate_font_file demo_lib (ascii ''notes.txt'')
     = (Inl (PyExn ValueError (unsupported_msg @ ascii ''.txt'')), [])"
  "validate_font_file demo_lib (ascii ''a.TTF'')
     = (Inr True, [TTFont_call (ascii ''a.TTF''), Close_call 1])"
proof -
  show "validate_font_file demo_lib (ascii ''notes.txt'')
     = (Inl (PyExn ValueError (unsupported_msg @ ascii ''.txt'')), [])"
    by (simp add: validate_font_file_def demo_exists demo_ext supported_mem raises_def)
  show "validate_font_file demo_lib (ascii ''a.TTF'')
     = (Inr True, [TTFont_call (ascii ''a.TTF''), Close_call 1])"
    by (simp add: validate_font_file_ok [OF demo_exists(4) _ demo_open(2) demo_rest(5)]
          demo_ext supported_mem)
qed

lemma demo_subset:
  "subsetter_new demo_lib = Inr 0"
  "subsetter_populate demo_lib 0 [65] = Inr 1"
  "subsetter_subset demo_lib 1 1 = Inr 11"
  "ttfont_save demo_lib 11 (ascii ''out.ttf'') = Inr ()"
  "ttfont_save demo_lib 11 (ascii ''dir/out.ttf'')
     = Inl (PyExn FileNotFoundError (ascii ''no such directory''))"
  by (simp_all add: demo_lib_def ascii_def)

text \<open>
  In the example world: \<open>notes.txt\<close> fails the validation; \<open>a.TTF\<close> cannot be saved
  to \<open>dir/out.ttf\<close>; \<open>a.TTF\<close> is subset to \<open>out.ttf\<close>.
\<close>

theorem subset_font_errors_witness:
  "fst (validate_font_file demo_lib (ascii ''notes.txt''))
     = Inl (PyExn ValueError (unsupported_msg @ ascii ''.txt'')) \<and>
   subset_font demo_lib (ascii ''notes.txt'') (ascii ''out.ttf'') [65]
     = (Inl (PyExn ValueError (unsupported_msg @ ascii ''.txt'')), []) \<and>
   fst (validate_font_file demo_lib (ascii ''a.TTF'')) = Inr True \<and>
   fst (subset_font_body demo_lib (ascii ''a.TTF'') (ascii ''dir/out.ttf'') [65])
     = Inl (PyExn FileNotFoundError (ascii ''no such directory'')) \<and>
   subset_font demo_lib (ascii ''a.TTF'') (ascii ''dir/out.ttf'') [65]
     = (Inl (PyExn RuntimeError (subset_failed_msg @ ascii ''no such directory'')),
        [TTFont_call (ascii ''a.TTF''), Close_call 1,
         TTFont_call (ascii ''a.TTF''), Subsetter_call, Populate_call [65], Subset_call 1,
         Save_call 11 (ascii ''dir/out.ttf'')]) \<and>
   fst (subset_font_body demo_lib (ascii ''a.TTF'') (ascii ''out.ttf'') [65]) = Inr True \<and>
   subset_font demo_lib (ascii ''a.TTF'') (ascii ''out.ttf'') [65]
     = (Inr True,
        [TTFont_call (ascii ''a.TTF''), Close_call 1,
         TTFont_call (ascii ''a.TTF''), Subsetter_call, Populate_call [65], Subset_call 1,
         Save_call 11 (ascii ''out.ttf''), Close_call 11])"
proof -
  note bad = subset_font_body_save_fails
      [OF demo_open(2) demo_subset(1) demo_subset(2) demo_subset(3) demo_subset(5)]
  note good = subset_font_body_ok
      [OF demo_open(2) demo_subset(1) demo_subset(2) demo_subset(3) demo_subset(4)
          demo_rest(5)]
  note t1 = subset_font_errors
      [of demo_lib "ascii ''notes.txt''"
          "PyExn ValueError (unsupported_msg @ ascii ''.txt'')" "ascii ''out.ttf''" "[65]"]
  note t2 = subset_font_errors
      [of demo_lib "ascii ''a.TTF''"
          "PyExn FileNotFoundError (ascii ''no such directory'')" "ascii ''dir/out.ttf''"
          "[65]" True]
  note t3 = subset_font_errors
      [of demo_lib "ascii ''a.TTF''" _ "ascii ''out.ttf''" "[65]" True True]
  from t1 t2 t3 show ?thesis
    by (simp add: demo_validate bad good)
qed

section \<open>Properties of the size reduction\<close>

text \<open>The only exception the arithmetic of the report can raise is \<open>OverflowError\<close>.\<close>


lemma py_truediv_raises:
  "py_truediv a b = Inl e \<Longrightarrow> b \<noteq> 0 \<Longrightarrow> exn_class e = OverflowError"
  by (auto simp: py_truediv_def split: pyfloat.splits)

lemma float_of_int_raises: "float_of_int i = Inl e \<Longrightarrow> exn_class e = OverflowError"
  by (auto simp: float_of_int_def split: pyfloat.splits)

lemma size_reduction_raises:
  "size_reduction original_info subset_info = Inl e \<Longrightarrow> exn_class e = OverflowError"
  by (auto simp: size_reduction_def Let_def split: if_splits sum.splits
        dest: py_truediv_raises float_of_int_raises)

lemma format_file_size_raises: "format_file_size n = Inl e \<Longrightarrow> exn_class e = OverflowError"
  by (auto simp: format_file_size_def split: if_splits sum.splits dest: py_truediv_raises)

text \<open>
  C8. When the file size of the original font info is 0, the block computing the size
  reduction prints nothing and raises nothing: the division is not attempted. For no
  pair of font infos does the block raise \<open>ZeroDivisionError\<close>, and neither does
  \<open>format_file_size\<close>, the only other place of the program that divides.
\<close>

theorem size_reduction_guarded:
  "(file_size original_info = 0 \<longrightarrow> size_reduction original_info subset_info = Inr []) \<and>
   (\<forall>msg. size_reduction original_info subset_info \<noteq> Inl (PyExn ZeroDivisionError msg)) \<and>
   (\<forall>msg. format_file_size n \<noteq> Inl (PyExn ZeroDivisionError msg))"
proof (intro conjI impI allI)
  show "size_reduction original_info subset_info = Inr []" if "file_size original_info = 0"
    using that by (simp add: size_reduction_def)
  show "size_reduction original_info subset_info \<noteq> Inl (PyExn ZeroDivisionError msg)" for msg
    using size_reduction_raises [of original_info subset_info "PyExn ZeroDivisionError msg"]
    by auto
  show "format_file_size n \<noteq> Inl (PyExn ZeroDivisionError msg)" for msg
    using format_file_size_raises [of n "PyExn ZeroDivisionError msg"]
    by auto
qed

text \<open>
  With the sentinel font info as the original the report is empty; from 1000 bytes to
  300 bytes it is the line \<open>"  ...: 70.0%"\<close>.
\<close>

theorem size_reduction_guarded_witness:
  "file_size unknown_info = 0 \<and>
   size_reduction unknown_info \<lparr>name = ascii ''Demo'', char_count = 2, file_size = 300\<rparr> = Inr [] \<and>
   size_reduction \<lparr>name = ascii ''Demo'', char_count = 2, file_size = 1000\<rparr>
                  \<lparr>name = ascii ''Demo'', char_count = 2, file_size = 300\<rparr>
     = Inr [size_reduced_msg @ ascii ''70.0%'']"
proof -
  have z: "file_size unknown_info = 0"
    by (simp add: unknown_info_def)
  have v: "size_reduction \<lparr>name = ascii ''Demo'', char_count = 2, file_size = 1000\<rparr>
                  \<lparr>name = ascii ''Demo'', char_count = 2, file_size = 300\<rparr>
     = Inr [size_reduced_msg @ ascii ''70.0%'']"
    by code_simp
  from z v size_reduction_guarded [of unknown_info
      "\<lparr>name = ascii ''Demo'', char_count = 2, file_size = 300\<rparr>"]
  show ?thesis
    by blast
qed

section \<open>The units of \<open>format_file_size\<close>\<close>

subsection \<open>Rounding to the nearest integer\<close>


lemma rhe_bounds:
  assumes "0 < b"
  shows "2 * a - b \<le> 2 * (round_half_even_div a b * b) \<and>
         2 * (round_half_even_div a b * b) \<le> 2 * a + b"
proof -
  define q r where "q = a div b" and "r = a mod b"
  have a: "a = q * b + r"
    by (simp add: q_def r_def)
  have r: "0 \<le> r" "r < b"
    using assms by (simp_all add: r_def)
  show ?thesis
    unfolding round_half_even_div_def Let_def q_def [symmetric] r_def [symmetric]
    using r by (auto simp: a algebra_simps)
qed

lemma rhe_nonneg: "0 \<le> a \<Longrightarrow> 0 < b \<Longrightarrow> 0 \<le> round_half_even_div a b"
  by (auto simp: round_half_even_div_def Let_def pos_imp_zdiv_nonneg_iff)

lemma rhe_exact: "0 < b \<Longrightarrow> round_half_even_div (k * b) b = k"
  by (simp add: round_half_even_div_def)

lemma rhe_scale:
  assumes "0 < b" "0 < c"
  shows "round_half_even_div (a * c) (b * c) = round_half_even_div a b"
proof -
  have d: "(a * c) div (b * c) = a div b"
    using assms by simp
  have m: "(a * c) mod (b * c) = (a mod b) * c"
    using assms by simp
  have l: "2 * (a mod b * c) < b * c \<longleftrightarrow> 2 * (a mod b) < b"
    using assms by (metis mult.assoc mult_less_cancel_right_pos)
  have g: "b * c < 2 * (a mod b * c) \<longleftrightarrow> b < 2 * (a mod b)"
    using assms by (metis mult.assoc mult_less_cancel_right_pos)
  show ?thesis
    unfolding round_half_even_div_def Let_def d m l g ..
qed


subsection \<open>Division by a power of two\<close>

text \<open>
  A positive integer below \<open>2^53\<close> divided by \<open>2^k\<close> is a float, so the division is
  exact and the one decimal printed is that of the exact quotient.
\<close>

lemma bitlen_power2: "bitlen (2 ^ k) = int k + 1"
proof -
  have "bitlen (1 * 2 ^ k) = bitlen 1 + int k"
    by (rule bitlen_pow2) simp
  moreover have "bitlen 1 = 1"
    by (simp add: bitlen_alt_def)
  ultimately show ?thesis
    by simp
qed

lemma round_to_double_pow2_exact:
  assumes n: "0 < n" "n < 2 ^ 53" and k: "1 \<le> k" "k \<le> 1074"
  shows "\<exists>e. e < 0 \<and> int k \<le> - e \<and>
           round_to_double s n (2 ^ k) = Finite s (n * 2 ^ (nat (- e) - k)) e"
proof -
  define e0 where "e0 = bitlen n - bitlen (2 ^ k) - 53"
  define e1 where "e1 = (if scaled_below n (2 ^ k) (e0 + 53) then e0 else e0 + 1)"
  define e where "e = max e1 (- 1074)"
  have "bitlen n \<le> 53"
    using n by (simp add: bitlen_le_iff_power)
  then have "e0 + 1 \<le> - int k"
    by (simp add: e0_def bitlen_power2)
  then have "e1 \<le> - int k"
    by (simp add: e1_def)
  with k have e: "e \<le> - int k" "e < 0"
    by (simp_all add: e_def)
  define d where "d = nat (- e) - k"
  have split: "nat (- e) = d + k"
    using e by (simp add: d_def)
  have "scaled_round n (2 ^ k) e = round_half_even_div (n * 2 ^ d * 2 ^ k) (2 ^ k)"
    using e by (simp add: scaled_round_def split power_add mult.assoc)
  also have "\<dots> = n * 2 ^ d"
    by (rule rhe_exact) simp
  finally have m: "scaled_round n (2 ^ k) e = n * 2 ^ d" .
  have "n * 2 ^ d \<noteq> 0"
    using n by simp
  with m e n have "round_to_double s n (2 ^ k) = Finite s (n * 2 ^ d) e"
    by (simp add: round_to_double_def Let_def e0_def [symmetric] e1_def [symmetric]
          e_def [symmetric])
  with e show ?thesis
    unfolding d_def by (intro exI [of _ e]) simp
qed

lemma format_1f_truediv_pow2:
  assumes n: "0 < n" "n < 2 ^ 53" and k: "1 \<le> k" "k \<le> 1074"
  shows "\<exists>x. py_truediv n (2 ^ k) = Inr x \<and>
           format_1f x = one_decimal (round_half_even_div (10 * n) (2 ^ k))"
proof -
  from round_to_double_pow2_exact [OF n k, of False]
  obtain e where e: "e < 0" "int k \<le> - e"
    and r: "round_to_double False n (2 ^ k) = Finite False (n * 2 ^ (nat (- e) - k)) e"
    by blast
  define d where "d = nat (- e) - k"
  have split: "nat (- e) = d + k"
    using e by (simp add: d_def)
  have "py_truediv n (2 ^ k) = Inr (Finite False (n * 2 ^ d) e)"
    using n r by (simp add: py_truediv_def d_def)
  moreover have "round_half_even_div (10 * (n * 2 ^ d)) (2 ^ nat (- e))
                   = round_half_even_div (10 * n * 2 ^ d) (2 ^ k * 2 ^ d)"
    by (simp add: split power_add mult_ac)
  moreover have "round_half_even_div (10 * n * 2 ^ d) (2 ^ k * 2 ^ d)
                   = round_half_even_div (10 * n) (2 ^ k)"
    by (rule rhe_scale) simp_all
  ultimately show ?thesis
    using e by simp
qed


text \<open>
  Below \<open>2^1044 - 2^990\<close> the quotient by \<open>2^20\<close> rounds to a finite float: the
  exponent is at most 971 and the rounded magnitude stays below \<open>2^53\<close> units.
\<close>

lemma round_to_double_unfold:
  assumes "num \<noteq> 0"
    and "e0 = bitlen num - bitlen den - 53"
    and "e1 = (if scaled_below num den (e0 + 53) then e0 else e0 + 1)"
    and "e = max e1 (- 1074)"
    and "m = scaled_round num den e"
  shows "round_to_double s num den =
           (if m = 0 then Finite s 0 0
            else if 0 \<le> e \<and> 2 ^ 1024 \<le> m * 2 ^ nat e then Infinite s
            else Finite s m e)"
  unfolding assms(5) assms(4) assms(3) assms(2) round_to_double_def Let_def
  by (simp only: assms(1) if_False)

lemma scaled_round_nonneg: "0 \<le> num \<Longrightarrow> 0 < den \<Longrightarrow> 0 \<le> scaled_round num den e"
  by (simp add: scaled_round_def rhe_nonneg)

lemma round_to_double_mb_finite:
  assumes n: "0 < n" "n < 2 ^ 1044 - 2 ^ 990"
  shows "\<exists>m e. 0 \<le> m \<and> round_to_double False n (2 ^ 20) = Finite False m e"
proof -
  define e0 where "e0 = bitlen n - bitlen (2 ^ 20) - 53"
  define e1 where "e1 = (if scaled_below n (2 ^ 20) (e0 + 53) then e0 else e0 + 1)"
  define e where "e = max e1 (- 1074)"
  define m where "m = scaled_round n (2 ^ 20) e"
  have "n < 2 ^ nat 1044"
    using n by simp
  then have "bitlen n \<le> 1044"
    by (simp only: bitlen_le_iff_power) simp
  then have "e0 \<le> 970"
    unfolding e0_def bitlen_power2 by simp
  then have "e1 \<le> 971"
    by (simp add: e1_def)
  then have e: "e \<le> 971"
    by (simp add: e_def)
  have m0: "0 \<le> m"
    unfolding m_def using n by (intro scaled_round_nonneg) simp_all
  have no: "\<not> (0 \<le> e \<and> 2 ^ 1024 \<le> m * 2 ^ nat e)"
  proof
    assume a: "0 \<le> e \<and> 2 ^ 1024 \<le> m * 2 ^ nat e"
    then have "nat e \<le> 971"
      using e by simp
    then have p: "(2::int) ^ nat e \<le> 2 ^ 971"
      by (intro power_increasing) simp_all
    have "m = round_half_even_div n (2 ^ 20 * 2 ^ nat e)"
      using a by (simp add: m_def scaled_round_def)
    with rhe_bounds [of "2 ^ 20 * 2 ^ nat e" n]
    have "2 * (m * (2 ^ 20 * 2 ^ nat e)) \<le> 2 * n + 2 ^ 20 * 2 ^ nat e"
      by simp
    then have "2 ^ 21 * (m * 2 ^ nat e) \<le> 2 * n + 2 ^ 20 * 2 ^ nat e"
      by (simp add: mult_ac)
    moreover have "(2::int) ^ 21 * 2 ^ 1024 \<le> 2 ^ 21 * (m * 2 ^ nat e)"
      using a by (intro mult_left_mono) simp_all
    moreover have "(2::int) ^ 20 * 2 ^ nat e \<le> 2 ^ 20 * 2 ^ 971"
      using p by (intro mult_left_mono) simp_all
    moreover have "2 * n + 2 ^ 20 * 2 ^ 971 < (2::int) ^ 21 * 2 ^ 1024"
      using n by simp
    ultimately show False
      by linarith
  qed
  have "n \<noteq> 0"
    using n by simp
  note r = round_to_double_unfold [OF this e0_def e1_def e_def m_def, of False]
  show ?thesis
  proof (cases "m = 0")
    case True
    with r have "round_to_double False n (2 ^ 20) = Finite False 0 0"
      by simp
    then show ?thesis
      by simp
  next
    case False
    with r no have "round_to_double False n (2 ^ 20) = Finite False m e"
      by (simp del: power_numeral)
    with m0 show ?thesis
      by blast
  qed
qed

lemma format_1f_nonneg:
  "0 \<le> m \<Longrightarrow> \<exists>t. 0 \<le> t \<and> format_1f (Finite False m e) = one_decimal t"
proof (cases "0 \<le> e")
  case True
  assume "0 \<le> m"
  with True show ?thesis
    by (intro exI [of _ "10 * m * 2 ^ nat e"]) simp
next
  case False
  assume "0 \<le> m"
  with False show ?thesis
    by (intro exI [of _ "round_half_even_div (10 * m) (2 ^ nat (- e))"])
       (simp add: rhe_nonneg)
qed


subsection \<open>The three units\<close>

lemma format_file_size_bytes:
  "0 \<le> n \<Longrightarrow> n < 1024 \<Longrightarrow> format_file_size n = Inr (str_nat n @ ascii '' B'')"
  by (simp add: format_file_size_def str_int_def)

lemma format_file_size_kb:
  assumes "1024 \<le> n" "n < 1024 * 1024"
  shows "format_file_size n
           = Inr (one_decimal (round_half_even_div (10 * n) 1024) @ ascii '' KB'')"
proof -
  have "0 < n" "n < 2 ^ 53"
    using assms by simp_all
  from format_1f_truediv_pow2 [OF this, of 10]
  obtain x where "py_truediv n 1024 = Inr x"
    and "format_1f x = one_decimal (round_half_even_div (10 * n) 1024)"
    by auto
  with assms show ?thesis
    by (simp add: format_file_size_def)
qed

lemma format_file_size_mb:
  assumes "1024 * 1024 \<le> n" "n < 2 ^ 53"
  shows "format_file_size n
           = Inr (one_decimal (round_half_even_div (10 * n) (1024 * 1024)) @ ascii '' MB'')"
proof -
  have "0 < n"
    using assms by simp
  from format_1f_truediv_pow2 [OF this assms(2), of 20]
  obtain x where "py_truediv n 1048576 = Inr x"
    and "format_1f x = one_decimal (round_half_even_div (10 * n) 1048576)"
    by auto
  with assms show ?thesis
    by (simp add: format_file_size_def)
qed

lemma format_file_size_mb_large:
  assumes "1024 * 1024 \<le> n" "n < 2 ^ 1044 - 2 ^ 990"
  shows "\<exists>t. 0 \<le> t \<and> format_file_size n = Inr (one_decimal t @ ascii '' MB'')"
proof -
  have "0 < n"
    using assms by simp
  from round_to_double_mb_finite [OF this assms(2)]
  obtain m e where m: "0 \<le> m"
    and r: "round_to_double False n 1048576 = Finite False m e"
    by auto
  from format_1f_nonneg [OF m, of e]
  obtain t where t: "0 \<le> t" "format_1f (Finite False m e) = one_decimal t"
    by blast
  have "py_truediv n 1048576 = Inr (Finite False m e)"
    using \<open>0 < n\<close> r by (simp add: py_truediv_def)
  with assms t have "format_file_size n = Inr (one_decimal t @ ascii '' MB'')"
    by (simp add: format_file_size_def)
  with t show ?thesis
    by blast
qed

text \<open>
  C7 as stated fails for large integers: \<open>(2^1044 - 2^990) / (1024 * 1024)\<close> rounds to
  \<open>2^1024\<close>, which is no float, and the true division of line 140 raises
  \<open>OverflowError\<close>.
\<close>

theorem format_file_size_overflow_counterexample:
  "format_file_size (2 ^ 1044 - 2 ^ 990)
     = Inl (PyExn OverflowError (ascii ''integer division result too large for a float''))"
  by code_simp

text \<open>
  C7, amended. For an integer \<open>n\<close> with \<open>0 \<le> n < 1024\<close> the result is \<open>n\<close> in decimal
  and \<open>" B"\<close>; for \<open>1024 \<le> n < 1024^2\<close> it is \<open>n / 1024\<close> rounded to one decimal (ties to
  even) and \<open>" KB"\<close>; for \<open>1024^2 \<le> n < 2^1044 - 2^990\<close> it is a number with one decimal
  and \<open>" MB"\<close>, the number being \<open>n / 1024^2\<close> rounded to one decimal (ties to even)
  when \<open>n < 2^53\<close>. In particular 512 gives \<open>"512 B"\<close>, 2048 gives \<open>"2.0 KB"\<close> and
  \<open>2 * 1024 * 1024\<close> gives \<open>"2.0 MB"\<close>.
\<close>

theorem format_file_size_units:
  "(0 \<le> n \<and> n < 1024 \<longrightarrow> format_file_size n = Inr (str_nat n @ ascii '' B'')) \<and>
   (1024 \<le> n \<and> n < 1024 * 1024 \<longrightarrow>
      format_file_size n
        = Inr (one_decimal (round_half_even_div (10 * n) 1024) @ ascii '' KB'')) \<and>
   (1024 * 1024 \<le> n \<and> n < 2 ^ 53 \<longrightarrow>
      format_file_size n
        = Inr (one_decimal (round_half_even_div (10 * n) (1024 * 1024)) @ ascii '' MB'')) \<and>
   (1024 * 1024 \<le> n \<and> n < 2 ^ 1044 - 2 ^ 990 \<longrightarrow>
      (\<exists>t. 0 \<le> t \<and> format_file_size n = Inr (one_decimal t @ ascii '' MB''))) \<and>
   format_file_size 512 = Inr (ascii ''512 B'') \<and>
   format_file_size 2048 = Inr (ascii ''2.0 KB'') \<and>
   format_file_size (2 * 1024 * 1024) = Inr (ascii ''2.0 MB'')"
proof (intro conjI impI)
  show "format_file_size n = Inr (str_nat n @ ascii '' B'')" if "0 \<le> n \<and> n < 1024"
    using that by (simp add: format_file_size_bytes)
  show "format_file_size n
          = Inr (one_decimal (round_half_even_div (10 * n) 1024) @ ascii '' KB'')"
    if "1024 \<le> n \<and> n < 1024 * 1024"
    using that format_file_size_kb [of n] by blast
  show "format_file_size n
          = Inr (one_decimal (round_half_even_div (10 * n) (1024 * 1024)) @ ascii '' MB'')"
    if "1024 * 1024 \<le> n \<and> n < 2 ^ 53"
    using that format_file_size_mb [of n] by blast
  show "\<exists>t. 0 \<le> t \<and> format_file_size n = Inr (one_decimal t @ ascii '' MB'')"
    if "1024 * 1024 \<le> n \<and> n < 2 ^ 1044 - 2 ^ 990"
    using that format_file_size_mb_large [of n] by blast
  show "format_file_size 512 = Inr (ascii ''512 B'')"
    by code_simp
  show "format_file_size 2048 = Inr (ascii ''2.0 KB'')"
    by code_simp
  show "format_file_size (2 * 1024 * 1024) = Inr (ascii ''2.0 MB'')"
    by code_simp
qed

text \<open>
  1000 bytes; 1280 and 1792 bytes, the ties \<open>1.25\<close> and \<open>1.75\<close>; 123456789 bytes; and
  \<open>2^80 + 12345\<close> bytes, which is no float.
\<close>

theorem format_file_size_units_witness:
  "format_file_size 1000 = Inr (ascii ''1000 B'') \<and>
   format_file_size 1280 = Inr (ascii ''1.2 KB'') \<and>
   format_file_size 1792 = Inr (ascii ''1.8 KB'') \<and>
   format_file_size 123456789 = Inr (ascii ''117.7 MB'') \<and>
   (\<exists>t. 0 \<le> t \<and> format_file_size (2 ^ 80 + 12345) = Inr (one_decimal t @ ascii '' MB''))"
proof -
  have a: "str_nat 1000 = ascii ''1000''"
    by code_simp
  have b: "one_decimal (round_half_even_div (10 * 1280) 1024) = ascii ''1.2''"
    by code_simp
  have c: "one_decimal (round_half_even_div (10 * 1792) 1024) = ascii ''1.8''"
    by code_simp
  have d: "one_decimal (round_half_even_div (10 * 123456789) (1024 * 1024)) = ascii ''117.7''"
    by code_simp
  have e: "(1024::int) * 1024 \<le> 2 ^ 80 + 12345 \<and> (2::int) ^ 80 + 12345 < 2 ^ 1044 - 2 ^ 990"
    by simp
  from format_file_size_units [of 1000] a
  have 1: "format_file_size 1000 = Inr (ascii ''1000 B'')"
    by (simp add: ascii_def)
  from format_file_size_units [of 1280] b
  have 2: "format_file_size 1280 = Inr (ascii ''1.2 KB'')"
    by (simp add: ascii_def)
  from format_file_size_units [of 1792] c
  have 3: "format_file_size 1792 = Inr (ascii ''1.8 KB'')"
    by (simp add: ascii_def)
  from format_file_size_units [of 123456789] d
  have 4: "format_file_size 123456789 = Inr (ascii ''117.7 MB'')"
    by (simp add: ascii_def)
  from format_file_size_units [of "2 ^ 80 + 12345"] e
  have 5: "\<exists>t. 0 \<le> t \<and> format_file_size (2 ^ 80 + 12345) = Inr (one_decimal t @ ascii '' MB'')"
    by blast
  from 1 2 3 4 5 show ?thesis
    by blast
qed

end
